theory Spec2Isabelle
  imports Main
begin

section \<open>Errors\<close>

text \<open>
  A Go \<open>error\<close> value: its message (what \<open>Error()\<close> returns) and, for an error built by
  \<open>fmt.Errorf\<close> with the verb \<open>%w\<close>, the error it wraps. \<open>None\<close> of type
  \<open>error option\<close> is Go's \<open>nil\<close> error.
\<close>

datatype error = Errorf string "error option"

fun Error :: "error \<Rightarrow> string" where
  "Error (Errorf msg wrapped) = msg"

text \<open>\<open>fmt.Errorf(pre + "%w" + post, err)\<close>: the message is spliced, the cause is kept.\<close>

definition Errorf_w :: "string \<Rightarrow> error \<Rightarrow> string \<Rightarrow> error" where
  "Errorf_w pre err post = Errorf (pre @ Error err @ post) (Some err)"

section \<open>Data model\<close>

record issueLabel =
  label_ID :: int
  label_Name :: string
  label_Description :: string

record issueMilestone =
  milestone_ID :: int
  milestone_Name :: string

record issueTemplate =
  template_Name :: string
  template_Content :: string

text \<open>The fields of \<open>gitlab.Project\<close> and \<open>gitlab.Issue\<close> that the program reads.\<close>

record Project =
  project_ID :: int
  project_Name :: string
  project_DefaultBranch :: string

record Issue =
  issue_IID :: int
  issue_WebURL :: string

definition noLabels :: "issueLabel list" where
  "noLabels = [\<lparr>label_ID = 0, label_Name = ''non-existant'', label_Description = ''''\<rparr>]"

definition noMilestone :: issueMilestone where
  "noMilestone = \<lparr>milestone_ID = 0, milestone_Name = ''non-existant''\<rparr>"

text \<open>
  \<open>gitlab.UpdateIssueOptions\<close>, the two fields the program sets. \<open>MilestoneID\<close> is a
  pointer in Go: \<open>None\<close> is the nil pointer, which leaves the field out of the request.
\<close>

record UpdateIssueOptions =
  AddLabels :: "string list"
  MilestoneID :: "int option"

section \<open>The world outside the program\<close>

text \<open>
  The calls the program makes to the hosting service, in order, and the files on disk
  (name to bytes) are the observable state.
\<close>

datatype api_call =
    CreateIssue int string string
  | UpdateIssue int int UpdateIssueOptions

record world =
  files :: "string \<rightharpoonup> string"
  api_calls :: "api_call list"

text \<open>
  The operating system and the standard library as the program meets them: every call
  whose outcome the program cannot determine is a field. \<open>cmd_Run\<close> is the editor
  process, an arbitrary command run on the draft's path: given its argument vector and
  the bytes of the draft, it returns its exit error and what it leaves of the draft,
  its bytes or \<open>None\<close> when the draft is no longer there (removed or renamed).
  \<open>DecodeString\<close> is \<open>base64.StdEncoding.DecodeString\<close> and \<open>Quote\<close> is \<open>strconv.Quote\<close>
  (what the verb \<open>%q\<close> prints), both taken as given.
\<close>

record os_env =
  Getenv :: "string \<Rightarrow> string"
  TempFile :: "string \<Rightarrow> string \<Rightarrow> error + string"
  file_Write :: "string \<Rightarrow> string \<Rightarrow> error option"
  file_Sync :: "string \<Rightarrow> error option"
  cmd_Run :: "string list \<Rightarrow> string \<Rightarrow> error option \<times> string option"
  ReadFile_err :: "string \<Rightarrow> error option"
  os_Remove :: "string \<Rightarrow> error option"
  homedir_Dir :: "error + string"
  MkdirAll :: "string \<Rightarrow> error option"
  ReadDir :: "string \<Rightarrow> string list \<times> error option"
  DecodeString :: "string \<Rightarrow> string \<times> error option"
  Quote :: "string \<Rightarrow> string"

text \<open>
  The hosting service as the client meets it. \<open>Issues_CreateIssue\<close> and
  \<open>Issues_UpdateIssue\<close> give the outcome of the call with these arguments.
\<close>

record treeNode =
  node_Name :: string
  node_Path :: string

record gitlabFile =
  file_FileName :: string
  file_Content :: string

record gitlabClient =
  ListTree :: "int \<Rightarrow> string \<Rightarrow> string \<Rightarrow> treeNode list \<times> error option"
  GetFile :: "int \<Rightarrow> string \<Rightarrow> string \<Rightarrow> gitlabFile \<times> error option"
  Issues_CreateIssue :: "int \<Rightarrow> string \<Rightarrow> string \<Rightarrow> Issue option \<times> error option"
  Issues_UpdateIssue :: "int \<Rightarrow> int \<Rightarrow> UpdateIssueOptions \<Rightarrow> error option"

text \<open>
  go-git's raw configuration, seen through \<open>HasSection\<close>, \<open>Section\<close>, \<open>HasOption\<close> and
  \<open>Option\<close>: sections by name, options by key. \<open>Option\<close> of an absent key is the empty
  string.
\<close>

type_synonym config_section = "string \<rightharpoonup> string"
type_synonym raw_config = "string \<rightharpoonup> config_section"

datatype Scope = LocalScope | GlobalScope | SystemScope

record Repository =
  ConfigScoped :: "Scope \<Rightarrow> error + raw_config"

definition HasSection :: "raw_config \<Rightarrow> string \<Rightarrow> bool" where
  "HasSection cfg name = (cfg name \<noteq> None)"

definition Section :: "raw_config \<Rightarrow> string \<Rightarrow> config_section" where
  "Section cfg name = (case cfg name of None \<Rightarrow> Map.empty | Some s \<Rightarrow> s)"

definition HasOption :: "config_section \<Rightarrow> string \<Rightarrow> bool" where
  "HasOption s key = (s key \<noteq> None)"

definition Option :: "config_section \<Rightarrow> string \<Rightarrow> string" where
  "Option s key = (case s key of None \<Rightarrow> [] | Some v \<Rightarrow> v)"

section \<open>strings.SplitN and strings.Split\<close>

text \<open>
  Go's \<open>strings.genSplit\<close> for a separator of one byte (both call sites pass one:
  a newline and a space). \<open>IndexByte\<close> is \<open>None\<close> where Go returns \<open>-1\<close>. The loop runs at
  most \<open>n - 1\<close> times, cutting at each separator, and the rest is the last element.
\<close>

fun IndexByte :: "string \<Rightarrow> char \<Rightarrow> nat option" where
  "IndexByte [] c = None"
| "IndexByte (x # s) c = (if x = c then Some 0 else map_option Suc (IndexByte s c))"

definition Count :: "string \<Rightarrow> char \<Rightarrow> nat" where
  "Count s c = length (filter (\<lambda>x. x = c) s)"

fun genSplit_loop :: "string \<Rightarrow> char \<Rightarrow> nat \<Rightarrow> string list" where
  "genSplit_loop s c 0 = [s]"
| "genSplit_loop s c (Suc k) =
     (case IndexByte s c of
        None \<Rightarrow> [s]
      | Some m \<Rightarrow> take m s # genSplit_loop (drop (m + 1) s) c k)"

definition SplitN :: "string \<Rightarrow> char \<Rightarrow> int \<Rightarrow> string list" where
  "SplitN s sep n =
     (if n = 0 then []
      else let n1 = (if n < 0 then int (Count s sep) + 1 else n);
               n2 = (if n1 > int (length s) + 1 then int (length s) + 1 else n1)
           in genSplit_loop s sep (nat (n2 - 1)))"

definition Split :: "string \<Rightarrow> char \<Rightarrow> string list" where
  "Split s sep = SplitN s sep (- 1)"

section \<open>getEditor\<close>

definition getEditor :: "os_env \<Rightarrow> Repository \<Rightarrow> string \<times> error option" where
  "getEditor os repository =
     (let gitEditor = Getenv os ''GIT_EDITOR'' in
      if gitEditor \<noteq> [] then (gitEditor, None)
      else case ConfigScoped repository GlobalScope of
        Inl err \<Rightarrow> ([], Some (Errorf_w ''could not get git config: '' err []))
      | Inr cfg \<Rightarrow>
          if HasSection cfg ''core'' \<and> HasOption (Section cfg ''core'') ''editor''
          then (Option (Section cfg ''core'') ''editor'', None)
          else let gitEditor = Getenv os ''VISUAL'' in
            if gitEditor \<noteq> [] then (gitEditor, None)
            else let gitEditor = Getenv os ''EDITOR'' in
              if gitEditor \<noteq> [] then (gitEditor, None)
              else (''vi'', None))"

text \<open>
  The precedence as the specification words it: a list of candidates, each set or not,
  the first that is set wins, and a default when none is. An environment variable is
  set when its value is not empty (\<open>os.Getenv\<close> cannot tell unset from empty);
  \<open>core.editor\<close> is set when the section and the option exist.
\<close>

fun first_set :: "string option list \<Rightarrow> string \<Rightarrow> string" where
  "first_set [] dflt = dflt"
| "first_set (None # cs) dflt = first_set cs dflt"
| "first_set (Some e # cs) dflt = e"

definition env_var :: "os_env \<Rightarrow> string \<Rightarrow> string option" where
  "env_var os name = (if Getenv os name = [] then None else Some (Getenv os name))"

definition core_editor :: "raw_config \<Rightarrow> string option" where
  "core_editor cfg = (case cfg ''core'' of None \<Rightarrow> None | Some s \<Rightarrow> s ''editor'')"

definition editor_precedence :: "os_env \<Rightarrow> raw_config \<Rightarrow> string" where
  "editor_precedence os cfg =
     first_set [env_var os ''GIT_EDITOR'', core_editor cfg,
                env_var os ''VISUAL'', env_var os ''EDITOR''] ''vi''"

section \<open>setIssueLabelsMilestones\<close>

text \<open>The loop over \<open>labels\<close>, appending to \<open>labelNames\<close>.\<close>

fun labelNames_loop :: "string list \<Rightarrow> issueLabel list \<Rightarrow> string list" where
  "labelNames_loop labelNames [] = labelNames"
| "labelNames_loop labelNames (l # ls) =
     labelNames_loop (if label_ID l \<noteq> 0 then labelNames @ [label_Name l] else labelNames) ls"

definition update_options :: "issueLabel list \<Rightarrow> issueMilestone \<Rightarrow> UpdateIssueOptions" where
  "update_options labels milestone =
     (let labelNames = labelNames_loop [] labels;
          options = \<lparr>AddLabels = labelNames, MilestoneID = None\<rparr>
      in if milestone_ID milestone \<noteq> 0
         then options\<lparr>MilestoneID := Some (milestone_ID milestone)\<rparr>
         else options)"

definition setIssueLabelsMilestones ::
  "gitlabClient \<Rightarrow> Project \<Rightarrow> Issue \<Rightarrow> issueLabel list \<Rightarrow> issueMilestone \<Rightarrow> world
     \<Rightarrow> error option \<times> world" where
  "setIssueLabelsMilestones c project issue labels milestone w =
     (let options = update_options labels milestone
      in (Issues_UpdateIssue c (project_ID project) (issue_IID issue) options,
          w\<lparr>api_calls := api_calls w @
               [UpdateIssue (project_ID project) (issue_IID issue) options]\<rparr>))"

section \<open>Paths, suffixes and files\<close>

text \<open>\<open>strings.HasSuffix\<close> and \<open>strings.TrimSuffix\<close>, on bytes as in Go.\<close>

definition HasSuffix :: "string \<Rightarrow> string \<Rightarrow> bool" where
  "HasSuffix s suffix =
     (length s \<ge> length suffix \<and> drop (length s - length suffix) s = suffix)"

definition TrimSuffix :: "string \<Rightarrow> string \<Rightarrow> string" where
  "TrimSuffix s suffix =
     (if HasSuffix s suffix then take (length s - length suffix) s else s)"

text \<open>
  \<open>filepath.Clean\<close> on a system whose separator is the slash and that has no volume
  names. The buffer \<open>out\<close> holds what was written so far (Go's \<open>out.w\<close> is its length),
  \<open>p\<close> is the part of the path still to read, and \<open>dotdot\<close> is the length below which
  a \<open>..\<close> element must not cut. \<open>backtrack\<close> is the inner loop that steps \<open>out.w\<close> back to
  the last separator.
\<close>

definition IsPathSeparator :: "char \<Rightarrow> bool" where
  "IsPathSeparator c = (c = CHR ''/'')"

fun backtrack :: "string \<Rightarrow> nat \<Rightarrow> nat \<Rightarrow> nat" where
  "backtrack out dotdot 0 = 0"
| "backtrack out dotdot (Suc w) =
     (if Suc w > dotdot \<and> \<not> IsPathSeparator (out ! Suc w)
      then backtrack out dotdot w
      else Suc w)"

function clean_loop :: "bool \<Rightarrow> string \<Rightarrow> string \<Rightarrow> nat \<Rightarrow> string" where
  "clean_loop rooted [] out dotdot = out"
| "clean_loop rooted (c # rest) out dotdot =
     (if IsPathSeparator c
      then clean_loop rooted rest out dotdot
      else if c = CHR ''.'' \<and> (rest = [] \<or> IsPathSeparator (hd rest))
      then clean_loop rooted rest out dotdot
      else if c = CHR ''.'' \<and> hd rest = CHR ''.'' \<and>
              (tl rest = [] \<or> IsPathSeparator (hd (tl rest)))
      then (if length out > dotdot
            then clean_loop rooted (tl rest)
                   (take (backtrack out dotdot (length out - 1)) out) dotdot
            else if \<not> rooted
            then clean_loop rooted (tl rest)
                   ((if length out > 0 then out @ ''/'' else out) @ ''..'')
                   (length ((if length out > 0 then out @ ''/'' else out) @ ''..''))
            else clean_loop rooted (tl rest) out dotdot)
      else clean_loop rooted (dropWhile (\<lambda>x. \<not> IsPathSeparator x) (c # rest))
             ((if rooted \<and> length out \<noteq> 1 \<or> \<not> rooted \<and> length out \<noteq> 0
               then out @ ''/'' else out) @
              takeWhile (\<lambda>x. \<not> IsPathSeparator x) (c # rest))
             dotdot)"
  by pat_completeness auto
termination
  by (relation "measure (\<lambda>(rooted, p, out, dotdot). length p)")
     (auto simp: less_Suc_eq_le length_dropWhile_le)

definition Clean :: "string \<Rightarrow> string" where
  "Clean path =
     (if path = [] then ''.''
      else let rooted = IsPathSeparator (hd path);
               out = (if rooted then clean_loop True (tl path) ''/'' 1
                      else clean_loop False path [] 0)
           in if length out = 0 then ''.'' else out)"

text \<open>\<open>strings.Join\<close> and \<open>filepath.Join\<close>.\<close>

fun strings_Join :: "string list \<Rightarrow> string \<Rightarrow> string" where
  "strings_Join [] sep = []"
| "strings_Join [e] sep = e"
| "strings_Join (e # es) sep = e @ sep @ strings_Join es sep"

definition filepath_Join :: "string list \<Rightarrow> string" where
  "filepath_Join elem =
     (case dropWhile (\<lambda>e. e = []) elem of
        [] \<Rightarrow> []
      | e # es \<Rightarrow> Clean (strings_Join (e # es) ''/''))"

text \<open>
  \<open>ioutil.ReadFile\<close>: the bytes on disk, unless the operating system reports an error or
  the file is not there.
\<close>

definition ReadFile :: "os_env \<Rightarrow> world \<Rightarrow> string \<Rightarrow> string \<times> error option" where
  "ReadFile os w name =
     (case ReadFile_err os name of
        Some err \<Rightarrow> ([], Some err)
      | None \<Rightarrow>
          (case files w name of
             None \<Rightarrow> ([], Some (Errorf (''open '' @ name @ '': no such file or directory'') None))
           | Some b \<Rightarrow> (b, None)))"

text \<open>\<open>os.Remove\<close>: the file is gone when the call succeeds and stays when it fails.\<close>

definition Remove :: "os_env \<Rightarrow> string \<Rightarrow> world \<Rightarrow> error option \<times> world" where
  "Remove os name w =
     (case os_Remove os name of
        None \<Rightarrow> (None, w\<lparr>files := (files w)(name := None)\<rparr>)
      | Some err \<Rightarrow> (Some err, w))"

section \<open>getLocalIssueTemplates and getIssueTemplates\<close>

text \<open>The loop over the directory entries; \<open>file\<close> is the entry's name.\<close>

fun local_loop ::
  "os_env \<Rightarrow> world \<Rightarrow> string \<Rightarrow> issueTemplate list \<Rightarrow> string list
     \<Rightarrow> issueTemplate list \<times> error option" where
  "local_loop os w localTemplateDir issueTemplates [] = (issueTemplates, None)"
| "local_loop os w localTemplateDir issueTemplates (file # rest) =
     (if \<not> HasSuffix file ''.md''
      then local_loop os w localTemplateDir issueTemplates rest
      else case ReadFile os w (filepath_Join [localTemplateDir, file]) of
        (b, Some err) \<Rightarrow>
          (issueTemplates, Some (Errorf_w (''could not read file '' @ file @ '': '') err []))
      | (b, None) \<Rightarrow>
          local_loop os w localTemplateDir
            (issueTemplates @
               [\<lparr>template_Name = TrimSuffix file ''.md'' @ '' [local]'',
                 template_Content = b\<rparr>]) rest)"

text \<open>
  The error that \<open>ioutil.ReadDir\<close> returns is assigned to \<open>err\<close> and never read: the loop
  runs over whatever entries came back with it.
\<close>

definition getLocalIssueTemplates ::
  "os_env \<Rightarrow> world \<Rightarrow> issueTemplate list \<times> error option" where
  "getLocalIssueTemplates os w =
     (let issueTemplates = [] in
      case homedir_Dir os of
        Inl err \<Rightarrow> (issueTemplates, Some (Errorf_w ''could not get home-dir: '' err []))
      | Inr home \<Rightarrow>
          (let localTemplateDir =
                 filepath_Join [home, ''.config'', ''gitlab'', ''issue_templates'']
           in (case MkdirAll os localTemplateDir of
                 Some err \<Rightarrow>
                   (issueTemplates,
                    Some (Errorf_w (''couuld not make dir '' @ Quote os localTemplateDir @ '': '')
                            err []))
               | None \<Rightarrow>
                   (let (entries, err) = ReadDir os localTemplateDir
                    in local_loop os w localTemplateDir issueTemplates entries))))"

fun remote_loop ::
  "gitlabClient \<Rightarrow> os_env \<Rightarrow> Project \<Rightarrow> issueTemplate list \<Rightarrow> treeNode list
     \<Rightarrow> issueTemplate list \<times> error option" where
  "remote_loop c os project issueTemplates [] = (issueTemplates, None)"
| "remote_loop c os project issueTemplates (node # rest) =
     (if \<not> HasSuffix (node_Path node) ''.md''
      then remote_loop c os project issueTemplates rest
      else case GetFile c (project_ID project) (node_Path node)
                  (project_DefaultBranch project) of
        (file, Some err) \<Rightarrow>
          (issueTemplates,
           Some (Errorf_w (''error fetching file '' @ node_Path node @
                           '' from issue_templates: '') err []))
      | (file, None) \<Rightarrow>
          (case DecodeString os (file_Content file) of
             (content, Some err) \<Rightarrow>
               (issueTemplates,
                Some (Errorf_w (''error decoding file '' @ node_Path node @
                                '' from issue_templates: '') err []))
           | (content, None) \<Rightarrow>
               remote_loop c os project
                 (issueTemplates @
                    [\<lparr>template_Name = TrimSuffix (file_FileName file) ''.md'',
                      template_Content = content\<rparr>]) rest))"

definition getIssueTemplates ::
  "gitlabClient \<Rightarrow> os_env \<Rightarrow> Project \<Rightarrow> world \<Rightarrow> issueTemplate list \<times> error option" where
  "getIssueTemplates c os project w =
     (let issueTemplates = [\<lparr>template_Name = ''BLANK'', template_Content = []\<rparr>] in
      case getLocalIssueTemplates os w of
        (localIssueTemplates, Some err) \<Rightarrow>
          (issueTemplates, Some (Errorf_w ''could not get local issue templates: '' err []))
      | (localIssueTemplates, None) \<Rightarrow>
          (let issueTemplates = issueTemplates @ localIssueTemplates in
           (case ListTree c (project_ID project) (project_DefaultBranch project)
                   ''.gitlab/issue_templates'' of
              (nodes, Some err) \<Rightarrow>
                (issueTemplates,
                 Some (Errorf_w ''error fetching files from issue_templates: '' err []))
            | (nodes, None) \<Rightarrow> remote_loop c os project issueTemplates nodes)))"

section \<open>createIssueFromTemplate\<close>

text \<open>
  The program with labels and milestones. Every early return of the source is a branch;
  the world returned is the one the function leaves behind. The draft exists from the
  moment \<open>ioutil.TempFile\<close> succeeds, and the only \<open>os.Remove\<close> is the last statement.
\<close>

definition createIssueFromTemplate ::
  "gitlabClient \<Rightarrow> os_env \<Rightarrow> Repository \<Rightarrow> Project \<Rightarrow> issueTemplate \<Rightarrow> world
     \<Rightarrow> (Issue option \<times> error option) \<times> world" where
  "createIssueFromTemplate c os repository project template w =
     (let issue = Some \<lparr>issue_IID = 0, issue_WebURL = []\<rparr> in
      (case TempFile os []
              (''*_'' @ project_Name project @ ''_'' @ template_Name template @
               ''_pre-submit.md'') of
         Inl err \<Rightarrow>
           ((issue,
             Some (Errorf_w ''could not create temporary issue-description file: '' err [])), w)
       | Inr name \<Rightarrow>
           (let w = w\<lparr>files := (files w)(name \<mapsto> [])\<rparr>;
                buf = [CHR 0x0A] @ [CHR 0x0A] @ template_Content template
            in
            (case file_Write os name buf of
               Some err \<Rightarrow>
                 ((issue, Some (Errorf_w ''could not prepopulate template: '' err [])), w)
             | None \<Rightarrow>
                 (let w = w\<lparr>files := (files w)(name \<mapsto> buf)\<rparr> in
                  (case file_Sync os name of
                     Some err \<Rightarrow>
                       ((issue, Some (Errorf_w ''could not sync file to disk: '' err [])), w)
                   | None \<Rightarrow>
                       (case getEditor os repository of
                          (editor, Some err) \<Rightarrow>
                            ((issue, Some (Errorf_w ''could not get editor: '' err [])), w)
                        | (editor, None) \<Rightarrow>
                            (let editorCommand = Split editor (CHR '' '') @ [name];
                                 (run_err, edited) = cmd_Run os editorCommand buf;
                                 w = w\<lparr>files := (files w)(name := edited)\<rparr>
                             in
                             (case run_err of
                                Some err \<Rightarrow>
                                  ((issue,
                                    Some (Errorf_w ''error running editor: '' err [])), w)
                              | None \<Rightarrow>
                                  (case ReadFile os w name of
                                     (issueContent, Some err) \<Rightarrow>
                                       ((issue,
                                         Some (Errorf_w ''could not read file: '' err
                                                 ('' ('' @ name @ '')''))), w)
                                   | (issueContent, None) \<Rightarrow>
                                       (if issueContent = buf
                                        then ((issue,
                                               Some (Errorf
                                                 ''content of issue has not been changed''
                                                 None)), w)
                                        else
                                          (let issueSplit =
                                                 SplitN issueContent (CHR 0x0A) 2 in
                                           if length issueSplit = 0
                                           then ((issue,
                                                  Some (Errorf ''empty issue content'' None)),
                                                 w)
                                           else if length (issueSplit ! 0) = 0
                                           then ((issue,
                                                  Some (Errorf
                                                    (''empty issue title ('' @ name @ '')'')
                                                    None)), w)
                                           else
                                             (let issueSplit =
                                                    (if length issueSplit = 1
                                                     then issueSplit @ [[]]
                                                     else issueSplit);
                                                  (issue, create_err) =
                                                    Issues_CreateIssue c (project_ID project)
                                                      (issueSplit ! 0) (issueSplit ! 1);
                                                  w = w\<lparr>api_calls := api_calls w @
                                                        [CreateIssue (project_ID project)
                                                           (issueSplit ! 0)
                                                           (issueSplit ! 1)]\<rparr>
                                              in
                                              (case create_err of
                                                 Some err \<Rightarrow>
                                                   ((issue,
                                                     Some (Errorf_w
                                                       ''could not create gitlab issue: '' err
                                                       ('' ('' @ name @ '')''))), w)
                                               | None \<Rightarrow>
                                                   (let (err, w) = Remove os name w
                                                    in ((issue, err), w))))))))))))))))"

text \<open>
  The program of the root \<open>main.go\<close>. Its \<open>createIssueFromTemplate\<close> defers
  \<open>os.Remove(file.Name())\<close> as soon as the draft exists: \<open>main_go_body\<close> is the function
  after the \<open>defer\<close> statement, and the deferred call runs on whatever it returns, its
  own error dropped.
\<close>

definition main_go_body ::
  "gitlabClient \<Rightarrow> os_env \<Rightarrow> Repository \<Rightarrow> Project \<Rightarrow> issueTemplate \<Rightarrow> string \<Rightarrow> world
     \<Rightarrow> (Issue option \<times> error option) \<times> world" where
  "main_go_body c os repository project template name w =
     (let issue = Some \<lparr>issue_IID = 0, issue_WebURL = []\<rparr>;
          buf = [CHR 0x0A] @ [CHR 0x0A] @ template_Content template
      in
      (case file_Write os name buf of
         Some err \<Rightarrow>
           ((issue, Some (Errorf_w ''could not prepopulate template: '' err [])), w)
       | None \<Rightarrow>
           (let w = w\<lparr>files := (files w)(name \<mapsto> buf)\<rparr> in
            (case file_Sync os name of
               Some err \<Rightarrow>
                 ((issue, Some (Errorf_w ''could not sync file to disk: '' err [])), w)
             | None \<Rightarrow>
                 (case getEditor os repository of
                    (editor, Some err) \<Rightarrow>
                      ((issue, Some (Errorf_w ''could not get editor: '' err [])), w)
                  | (editor, None) \<Rightarrow>
                      (let editorCommand = Split editor (CHR '' '') @ [name];
                           (run_err, edited) = cmd_Run os editorCommand buf;
                           w = w\<lparr>files := (files w)(name := edited)\<rparr>
                       in
                       (case run_err of
                          Some err \<Rightarrow>
                            ((issue, Some (Errorf_w ''error running editor: '' err [])), w)
                        | None \<Rightarrow>
                            (case ReadFile os w name of
                               (issueContent, Some err) \<Rightarrow>
                                 ((issue, Some (Errorf_w ''could not read file: '' err [])), w)
                             | (issueContent, None) \<Rightarrow>
                                 (if issueContent = buf
                                  then ((issue,
                                         Some (Errorf ''content of issue has not been changed''
                                                 None)), w)
                                  else
                                    (let issueSplit = SplitN issueContent (CHR 0x0A) 2 in
                                     if length issueSplit = 0
                                     then ((issue, Some (Errorf ''empty issue content'' None)),
                                           w)
                                     else if length (issueSplit ! 0) = 0
                                     then ((issue, Some (Errorf ''empty issue title'' None)), w)
                                     else
                                       (let issueSplit =
                                              (if length issueSplit = 1 then issueSplit @ [[]]
                                               else issueSplit);
                                            (issue, create_err) =
                                              Issues_CreateIssue c (project_ID project)
                                                (issueSplit ! 0) (issueSplit ! 1);
                                            w = w\<lparr>api_calls := api_calls w @
                                                  [CreateIssue (project_ID project)
                                                     (issueSplit ! 0) (issueSplit ! 1)]\<rparr>
                                        in
                                        (case create_err of
                                           Some err \<Rightarrow>
                                             ((issue,
                                               Some (Errorf_w
                                                 ''could not create gitlab issue: '' err [])),
                                              w)
                                         | None \<Rightarrow> ((issue, None), w)))))))))))))"

definition main_go_createIssueFromTemplate ::
  "gitlabClient \<Rightarrow> os_env \<Rightarrow> Repository \<Rightarrow> Project \<Rightarrow> issueTemplate \<Rightarrow> world
     \<Rightarrow> (Issue option \<times> error option) \<times> world" where
  "main_go_createIssueFromTemplate c os repository project template w =
     (case TempFile os [] ''*pre-submit.md'' of
        Inl err \<Rightarrow>
          ((Some \<lparr>issue_IID = 0, issue_WebURL = []\<rparr>,
            Some (Errorf_w ''could not create temporary issue-description file: '' err [])), w)
      | Inr name \<Rightarrow>
          (let w = w\<lparr>files := (files w)(name \<mapsto> [])\<rparr>;
               (result, w) = main_go_body c os repository project template name w;
               (deferred_err, w) = Remove os name w
           in (result, w)))"

section \<open>main, from the creation of the issue on\<close>

text \<open>
  The interactive selector: what \<open>fuzzyfinder.Find\<close> and \<open>fuzzyfinder.FindMulti\<close> return
  for the lines shown, an index (or indices) and an error; the error is not nil when the
  user cancels.
\<close>

record fuzzyfinder =
  Find :: "string list \<Rightarrow> int \<times> error option"
  FindMulti :: "string list \<Rightarrow> int list \<times> error option"

text \<open>How the process ends: \<open>log.Fatalf\<close> with its message, a run-time panic, or normally.\<close>

datatype exit = Exit_ok | Fatal string | Panic

text \<open>
  The milestone block of \<open>main\<close>: the error of \<open>Find\<close> is assigned to the blank
  identifier, and the index that came with it is used. An index outside the slice is
  a panic (\<open>None\<close>).
\<close>

definition main_selectedMilestone ::
  "fuzzyfinder \<Rightarrow> issueMilestone list \<Rightarrow> issueMilestone option" where
  "main_selectedMilestone ui milestones =
     (let selectedMilestone = noMilestone in
      if length milestones > 0
      then let (milestoneIdx, _) = Find ui (map milestone_Name milestones)
           in if 0 \<le> milestoneIdx \<and> milestoneIdx < int (length milestones)
              then Some (milestones ! nat milestoneIdx)
              else None
      else Some selectedMilestone)"

text \<open>The label block of \<open>main\<close>, with its loop over the chosen indices.\<close>

fun selectedLabels_loop ::
  "issueLabel list \<Rightarrow> issueLabel list \<Rightarrow> int list \<Rightarrow> issueLabel list option" where
  "selectedLabels_loop labels selectedLabels [] = Some selectedLabels"
| "selectedLabels_loop labels selectedLabels (idx # rest) =
     (if 0 \<le> idx \<and> idx < int (length labels)
      then selectedLabels_loop labels (selectedLabels @ [labels ! nat idx]) rest
      else None)"

definition main_selectedLabels ::
  "fuzzyfinder \<Rightarrow> issueLabel list \<Rightarrow> issueLabel list option" where
  "main_selectedLabels ui labels =
     (let selectedLabels = noLabels in
      if length labels > 0
      then let (labelIdxs, err) =
                 FindMulti ui
                   (map (\<lambda>l. label_Name l @ '': '' @ label_Description l) labels);
               selectedLabels = [];
               selectedLabels = (if err \<noteq> None then noLabels else selectedLabels)
           in selectedLabels_loop labels selectedLabels labelIdxs
      else Some selectedLabels)"

text \<open>
  \<open>main\<close> from the call of \<open>createIssueFromTemplate\<close> to its end; the template chosen and
  the labels and milestones fetched before are arguments.
\<close>

definition main_from_create ::
  "gitlabClient \<Rightarrow> os_env \<Rightarrow> fuzzyfinder \<Rightarrow> Repository \<Rightarrow> Project \<Rightarrow> issueTemplate
     \<Rightarrow> issueLabel list \<Rightarrow> issueMilestone list \<Rightarrow> world \<Rightarrow> exit \<times> world" where
  "main_from_create c os ui repo project template labels milestones w =
     (case createIssueFromTemplate c os repo project template w of
        ((issue, Some err), w) \<Rightarrow> (Fatal (''could not create issue: '' @ Error err), w)
      | ((issue, None), w) \<Rightarrow>
          (case issue of
             None \<Rightarrow> (Panic, w)
           | Some created \<Rightarrow>
               (case main_selectedMilestone ui milestones of
                  None \<Rightarrow> (Panic, w)
                | Some selectedMilestone \<Rightarrow>
                    (case main_selectedLabels ui labels of
                       None \<Rightarrow> (Panic, w)
                     | Some selectedLabels \<Rightarrow>
                         (case setIssueLabelsMilestones c project created selectedLabels
                                 selectedMilestone w of
                            (Some err, w) \<Rightarrow>
                              (Fatal (''could not add labels/milestones to issue: '' @
                                      Error err), w)
                          | (None, w) \<Rightarrow> (Exit_ok, w))))))"

section \<open>Vocabulary of the statements\<close>

text \<open>
  The conditions under which a run of \<open>createIssueFromTemplate\<close> gets as far as
  comparing the draft with what it wrote: the draft \<open>name\<close> was created, written and
  synced, an editor was found, it exited without error leaving the bytes \<open>edited\<close> in
  the draft, and the draft could be read back.
\<close>

definition session_ok ::
  "os_env \<Rightarrow> Repository \<Rightarrow> Project \<Rightarrow> issueTemplate \<Rightarrow> string \<Rightarrow> string \<Rightarrow> bool" where
  "session_ok os repository project template name edited \<longleftrightarrow>
     TempFile os []
       (''*_'' @ project_Name project @ ''_'' @ template_Name template @ ''_pre-submit.md'')
       = Inr name \<and>
     file_Write os name ([CHR 0x0A] @ [CHR 0x0A] @ template_Content template) = None \<and>
     file_Sync os name = None \<and>
     snd (getEditor os repository) = None \<and>
     cmd_Run os (Split (fst (getEditor os repository)) (CHR '' '') @ [name])
       ([CHR 0x0A] @ [CHR 0x0A] @ template_Content template) = (None, Some edited) \<and>
     ReadFile_err os name = None"

text \<open>The first line of a text and what follows its first newline.\<close>

definition first_line :: "string \<Rightarrow> string" where
  "first_line s = takeWhile (\<lambda>x. x \<noteq> CHR 0x0A) s"

definition after_first_newline :: "string \<Rightarrow> string" where
  "after_first_newline s = drop (Suc (length (first_line s))) s"

section \<open>A concrete run\<close>

text \<open>
  A small world to run the program in: a home directory with two templates and a text
  file, a project whose repository holds one template, an editor that leaves the given
  bytes in the draft, and a hosting service that accepts every call.
\<close>

definition example_os :: "string \<Rightarrow> os_env" where
  "example_os edited =
     \<lparr>Getenv = (\<lambda>name. []),
      TempFile = (\<lambda>dir pattern. Inr ''/tmp/7_pre-submit.md''),
      file_Write = (\<lambda>name b. None),
      file_Sync = (\<lambda>name. None),
      cmd_Run = (\<lambda>argv content. (None, Some edited)),
      ReadFile_err = (\<lambda>name. None),
      os_Remove = (\<lambda>name. None),
      homedir_Dir = Inr ''/home/u'',
      MkdirAll = (\<lambda>dir. None),
      ReadDir = (\<lambda>dir. ([''a.md'', ''notes.txt'', ''b.md''], None)),
      DecodeString = (\<lambda>s. if s = ''Yw=='' then (''c'', None)
                            else ([], Some (Errorf ''illegal base64 data'' None))),
      Quote = (\<lambda>s. [CHR 0x22] @ s @ [CHR 0x22])\<rparr>"

definition example_world :: world where
  "example_world =
     \<lparr>files = [''/home/u/.config/gitlab/issue_templates/a.md'' \<mapsto> ''A'',
               ''/home/u/.config/gitlab/issue_templates/b.md'' \<mapsto> ''B''],
      api_calls = []\<rparr>"

definition example_issue :: Issue where
  "example_issue = \<lparr>issue_IID = 1, issue_WebURL = ''https://gitlab.example/g/p/-/issues/1''\<rparr>"

definition example_client :: gitlabClient where
  "example_client =
     \<lparr>ListTree = (\<lambda>pid ref path.
         ([\<lparr>node_Name = ''c.md'', node_Path = ''.gitlab/issue_templates/c.md''\<rparr>,
           \<lparr>node_Name = ''logo.png'', node_Path = ''.gitlab/issue_templates/logo.png''\<rparr>],
          None)),
      GetFile = (\<lambda>pid path ref. (\<lparr>file_FileName = ''c.md'', file_Content = ''Yw==''\<rparr>, None)),
      Issues_CreateIssue = (\<lambda>pid title description. (Some example_issue, None)),
      Issues_UpdateIssue = (\<lambda>pid iid options. None)\<rparr>"

definition example_project :: Project where
  "example_project = \<lparr>project_ID = 42, project_Name = ''p'', project_DefaultBranch = ''main''\<rparr>"

definition example_repo :: "string option \<Rightarrow> Repository" where
  "example_repo editor =
     \<lparr>ConfigScoped = (\<lambda>scope. Inr [''core'' \<mapsto> (\<lambda>key. if key = ''editor'' then editor
                                                       else None)])\<rparr>"

definition example_env :: "string \<Rightarrow> string \<Rightarrow> string \<Rightarrow> string \<Rightarrow> string" where
  "example_env git_editor visual editor name =
     (if name = ''GIT_EDITOR'' then git_editor
      else if name = ''VISUAL'' then visual
      else if name = ''EDITOR'' then editor
      else [])"

definition bug_template :: issueTemplate where
  "bug_template = \<lparr>template_Name = ''bug'', template_Content = ''## Steps''\<rparr>"

text \<open>The same world with one thing going wrong, or with the environment set.\<close>

definition editor_fails_os :: os_env where
  "editor_fails_os =
     (example_os [])\<lparr>cmd_Run :=
        (\<lambda>argv content. (Some (Errorf ''exit status 1'' None), Some content))\<rparr>"

definition editor_removes_os :: os_env where
  "editor_removes_os = (example_os [])\<lparr>cmd_Run := (\<lambda>argv content. (None, None))\<rparr>"

definition remove_fails_os :: os_env where
  "remove_fails_os =
     (example_os ''Title'')\<lparr>os_Remove :=
        (\<lambda>name. Some (Errorf ''remove: operation not permitted'' None))\<rparr>"

definition readdir_fails_os :: os_env where
  "readdir_fails_os =
     (example_os [])\<lparr>ReadDir :=
        (\<lambda>dir. ([], Some (Errorf
           ''open /home/u/.config/gitlab/issue_templates: permission denied'' None)))\<rparr>"

definition create_fails_client :: gitlabClient where
  "create_fails_client =
     example_client\<lparr>Issues_CreateIssue :=
        (\<lambda>pid title description.
           (None, Some (Errorf ''500 Internal Server Error'' None)))\<rparr>"

definition env_os :: "string \<Rightarrow> string \<Rightarrow> string \<Rightarrow> os_env" where
  "env_os git_editor visual editor =
     (example_os [])\<lparr>Getenv := example_env git_editor visual editor\<rparr>"

definition BLANK :: issueTemplate where
  "BLANK = \<lparr>template_Name = ''BLANK'', template_Content = []\<rparr>"

definition ErrAbort :: error where
  "ErrAbort = Errorf ''abort'' None"

text \<open>
  A user who cancels every selection (\<open>Find\<close> then returns the index 0 with its error,
  \<open>FindMulti\<close> no index), and the milestones and labels of the example project.
\<close>

definition cancelling_ui :: fuzzyfinder where
  "cancelling_ui =
     \<lparr>Find = (\<lambda>lines. (0, Some ErrAbort)), FindMulti = (\<lambda>lines. ([], Some ErrAbort))\<rparr>"

definition example_milestones :: "issueMilestone list" where
  "example_milestones = [\<lparr>milestone_ID = 7, milestone_Name = ''v1.0''\<rparr>]"

definition example_labels :: "issueLabel list" where
  "example_labels = [\<lparr>label_ID = 3, label_Name = ''bug'', label_Description = ''a defect''\<rparr>]"

section \<open>Auxiliary facts\<close>

lemma labelNames_loop_filter:
  "labelNames_loop acc ls = acc @ map label_Name (filter (\<lambda>l. label_ID l \<noteq> 0) ls)"
  by (induction ls arbitrary: acc) simp_all

lemma IndexByte_takeWhile:
  "IndexByte s c = (if c \<in> set s then Some (length (takeWhile (\<lambda>x. x \<noteq> c) s)) else None)"
  by (induction s) auto

lemma take_length_takeWhile: "take (length (takeWhile P s)) s = takeWhile P s"
  by (induction s) auto

lemma SplitN_2:
  "SplitN s (CHR 0x0A) 2 =
     (if CHR 0x0A \<in> set s then [first_line s, after_first_newline s] else [s])"
proof (cases s)
  case Nil
  then show ?thesis by (simp add: SplitN_def)
next
  case (Cons x xs)
  then have "nat ((if 2 > int (length s) + 1 then int (length s) + 1 else 2) - 1) = Suc 0"
    by simp
  then show ?thesis
    by (simp add: SplitN_def Let_def IndexByte_takeWhile take_length_takeWhile
        first_line_def after_first_newline_def)
qed

lemma first_line_no_newline: "CHR 0x0A \<notin> set s \<Longrightarrow> first_line s = s"
  by (auto simp: first_line_def)

lemma after_first_newline_none: "CHR 0x0A \<notin> set s \<Longrightarrow> after_first_newline s = []"
  by (simp add: after_first_newline_def first_line_no_newline)

text \<open>How the title and the description handed to the creation call come out of SplitN.\<close>

lemma issueSplit_nonempty: "SplitN s (CHR 0x0A) 2 \<noteq> []"
  by (simp add: SplitN_2)

lemma issueSplit_title: "SplitN s (CHR 0x0A) 2 ! 0 = first_line s"
  by (simp add: SplitN_2 first_line_no_newline)

lemma issueSplit_padded:
  "(if length (SplitN s (CHR 0x0A) 2) = Suc 0 then SplitN s (CHR 0x0A) 2 @ [[]]
    else SplitN s (CHR 0x0A) 2) = [first_line s, after_first_newline s]"
  by (simp add: SplitN_2 first_line_no_newline after_first_newline_none)

lemma local_loop_total:
  "\<forall>entry \<in> set entries. HasSuffix entry ''.md'' \<longrightarrow>
       snd (ReadFile os w (filepath_Join [dir, entry])) = None \<Longrightarrow>
   local_loop os w dir acc entries =
     (acc @ map (\<lambda>file. \<lparr>template_Name = TrimSuffix file ''.md'' @ '' [local]'',
                          template_Content = fst (ReadFile os w (filepath_Join [dir, file]))\<rparr>)
               (filter (\<lambda>file. HasSuffix file ''.md'') entries), None)"
proof (induction entries arbitrary: acc)
  case Nil
  then show ?case by simp
next
  case (Cons entry rest)
  then have ih: "local_loop os w dir acc' rest =
     (acc' @ map (\<lambda>file. \<lparr>template_Name = TrimSuffix file ''.md'' @ '' [local]'',
                          template_Content = fst (ReadFile os w (filepath_Join [dir, file]))\<rparr>)
               (filter (\<lambda>file. HasSuffix file ''.md'') rest), None)" for acc'
    by simp
  show ?case
  proof (cases "HasSuffix entry ''.md''")
    case False
    with ih show ?thesis by simp
  next
    case True
    with Cons.prems have "snd (ReadFile os w (filepath_Join [dir, entry])) = None"
      by simp
    then obtain b where "ReadFile os w (filepath_Join [dir, entry]) = (b, None)"
      by (cases "ReadFile os w (filepath_Join [dir, entry])") simp
    with True ih show ?thesis by simp
  qed
qed

lemma remote_loop_total:
  "\<forall>node \<in> set nodes. HasSuffix (node_Path node) ''.md'' \<longrightarrow>
       snd (GetFile c (project_ID project) (node_Path node) (project_DefaultBranch project))
         = None \<and>
       snd (DecodeString os (file_Content (fst (GetFile c (project_ID project)
              (node_Path node) (project_DefaultBranch project))))) = None \<Longrightarrow>
   remote_loop c os project acc nodes =
     (acc @ map (\<lambda>node.
             let file = fst (GetFile c (project_ID project) (node_Path node)
                               (project_DefaultBranch project))
             in \<lparr>template_Name = TrimSuffix (file_FileName file) ''.md'',
                 template_Content = fst (DecodeString os (file_Content file))\<rparr>)
           (filter (\<lambda>node. HasSuffix (node_Path node) ''.md'') nodes), None)"
proof (induction nodes arbitrary: acc)
  case Nil
  then show ?case by simp
next
  case (Cons node rest)
  then have ih: "remote_loop c os project acc' rest =
     (acc' @ map (\<lambda>node.
             let file = fst (GetFile c (project_ID project) (node_Path node)
                               (project_DefaultBranch project))
             in \<lparr>template_Name = TrimSuffix (file_FileName file) ''.md'',
                 template_Content = fst (DecodeString os (file_Content file))\<rparr>)
           (filter (\<lambda>node. HasSuffix (node_Path node) ''.md'') rest), None)" for acc'
    by simp
  show ?case
  proof (cases "HasSuffix (node_Path node) ''.md''")
    case False
    with ih show ?thesis by simp
  next
    case True
    with Cons.prems obtain fetched where
      gf: "GetFile c (project_ID project) (node_Path node) (project_DefaultBranch project)
             = (fetched, None)"
      by (cases "GetFile c (project_ID project) (node_Path node)
                   (project_DefaultBranch project)") simp
    with Cons.prems True obtain content where
      "DecodeString os (file_Content fetched) = (content, None)"
      by (cases "DecodeString os (file_Content fetched)") simp
    with True gf ih show ?thesis by simp
  qed
qed

lemma example_paths:
  "filepath_Join [''/home/u'', ''.config'', ''gitlab'', ''issue_templates''] =
     ''/home/u/.config/gitlab/issue_templates''"
  "filepath_Join [''/home/u/.config/gitlab/issue_templates'', ''a.md''] =
     ''/home/u/.config/gitlab/issue_templates/a.md''"
  "filepath_Join [''/home/u/.config/gitlab/issue_templates'', ''b.md''] =
     ''/home/u/.config/gitlab/issue_templates/b.md''"
  by (simp_all add: filepath_Join_def Clean_def IsPathSeparator_def)

lemmas example_defs = example_os_def example_world_def example_client_def example_project_def
  example_repo_def example_issue_def BLANK_def

lemma example_session_ok:
  "session_ok ((example_os edited)\<lparr>os_Remove := rm\<rparr>) (example_repo ed) example_project
     template ''/tmp/7_pre-submit.md'' edited"
  by (cases ed)
     (simp_all add: session_ok_def example_os_def example_repo_def getEditor_def
        HasSection_def HasOption_def Section_def Option_def)

lemma example_session_ok':
  "session_ok (example_os edited) (example_repo ed) example_project
     template ''/tmp/7_pre-submit.md'' edited"
  using example_session_ok [where edited = edited and rm = "os_Remove (example_os edited)"]
  by simp

section \<open>The draft file\<close>

text \<open>
  C1, as amended. In the program with labels and milestones, once the draft exists,
  createIssueFromTemplate itself removes it only on the return without error, which is
  reached only after the creation call was made and succeeded and os.Remove succeeded;
  and a run whose edited content is accepted, whose creation call succeeds and whose
  os.Remove succeeds does return without error, the draft removed.
  On a return with an error the function has removed nothing: the draft is absent only
  if the editor ran and left it absent, and it is on disk after unchanged content, an
  empty title, and any error that follows the creation call. In the program of the
  root main.go, the removal is deferred as soon as the draft exists, so the draft is
  gone on every return on which os.Remove succeeds, failures included.
\<close>

theorem draft_lifecycle:
  "(TempFile os []
      (''*_'' @ project_Name project @ ''_'' @ template_Name template @ ''_pre-submit.md'')
      = Inr name \<and>
    createIssueFromTemplate c os repository project template w = ((issue, err), w') \<longrightarrow>
      (err = None \<longrightarrow>
         files w' name = None \<and> os_Remove os name = None \<and>
         (\<exists>title description.
            api_calls w' = api_calls w @ [CreateIssue (project_ID project) title description] \<and>
            snd (Issues_CreateIssue c (project_ID project) title description) = None)) \<and>
      (err \<noteq> None \<and> files w' name = None \<longrightarrow>
         file_Write os name ([CHR 0x0A] @ [CHR 0x0A] @ template_Content template) = None \<and>
         file_Sync os name = None \<and>
         snd (getEditor os repository) = None \<and>
         snd (cmd_Run os (Split (fst (getEditor os repository)) (CHR '' '') @ [name])
                ([CHR 0x0A] @ [CHR 0x0A] @ template_Content template)) = None) \<and>
      (err = Some (Errorf ''content of issue has not been changed'' None) \<longrightarrow>
         files w' name \<noteq> None) \<and>
      (err = Some (Errorf (''empty issue title ('' @ name @ '')'') None) \<longrightarrow>
         files w' name \<noteq> None) \<and>
      (err \<noteq> None \<and> api_calls w' \<noteq> api_calls w \<longrightarrow> files w' name \<noteq> None))
   \<and>
   (session_ok os repository project template name edited \<and>
    edited \<noteq> [CHR 0x0A] @ [CHR 0x0A] @ template_Content template \<and>
    first_line edited \<noteq> [] \<and>
    Issues_CreateIssue c (project_ID project) (first_line edited)
      (after_first_newline edited) = (created, None) \<and>
    os_Remove os name = None \<longrightarrow>
      fst (createIssueFromTemplate c os repository project template w) = (created, None) \<and>
      files (snd (createIssueFromTemplate c os repository project template w)) name = None)
   \<and>
   (TempFile os [] ''*pre-submit.md'' = Inr name' \<and> os_Remove os name' = None \<longrightarrow>
      files (snd (main_go_createIssueFromTemplate c os repository project template w)) name'
        = None)"
proof (intro conjI impI)
  assume "TempFile os [] ''*pre-submit.md'' = Inr name' \<and> os_Remove os name' = None"
  then show "files (snd (main_go_createIssueFromTemplate c os repository project template w))
               name' = None"
    by (simp add: main_go_createIssueFromTemplate_def Remove_def Let_def split: prod.splits)
next
  assume s: "session_ok os repository project template name edited \<and>
    edited \<noteq> [CHR 0x0A] @ [CHR 0x0A] @ template_Content template \<and>
    first_line edited \<noteq> [] \<and>
    Issues_CreateIssue c (project_ID project) (first_line edited)
      (after_first_newline edited) = (created, None) \<and>
    os_Remove os name = None"
  then have r: "createIssueFromTemplate c os repository project template w =
        ((created, None),
         w\<lparr>files := (files w)(name := None),
           api_calls := api_calls w @
           [CreateIssue (project_ID project) (first_line edited) (after_first_newline edited)]\<rparr>)"
    by (cases "getEditor os repository")
      (simp add: session_ok_def createIssueFromTemplate_def ReadFile_def Let_def Remove_def
        issueSplit_nonempty issueSplit_title issueSplit_padded)
  show "fst (createIssueFromTemplate c os repository project template w) = (created, None)"
    by (simp add: r)
  show "files (snd (createIssueFromTemplate c os repository project template w)) name = None"
    by (simp add: r)
next
  assume a: "TempFile os []
      (''*_'' @ project_Name project @ ''_'' @ template_Name template @ ''_pre-submit.md'')
      = Inr name \<and>
    createIssueFromTemplate c os repository project template w = ((issue, err), w')"
  note unfold = createIssueFromTemplate_def Let_def Remove_def ReadFile_def Errorf_w_def
  note splits = option.splits prod.splits if_splits
  {
    assume "err = None"
    with a show "files w' name = None"
      by (auto simp: unfold split: splits)
    from a \<open>err = None\<close> show "os_Remove os name = None"
      by (auto simp: unfold split: splits)
    from a \<open>err = None\<close>
    show "\<exists>title description.
            api_calls w' = api_calls w @ [CreateIssue (project_ID project) title description] \<and>
            snd (Issues_CreateIssue c (project_ID project) title description) = None"
      by (auto simp: unfold split: splits)
  }
  {
    assume b: "err \<noteq> None \<and> files w' name = None"
    with a show "file_Write os name ([CHR 0x0A] @ [CHR 0x0A] @ template_Content template)
                   = None"
      by (auto simp: unfold split: splits)
    from a b show "file_Sync os name = None"
      by (auto simp: unfold split: splits)
    from a b show "snd (getEditor os repository) = None"
      by (auto simp: unfold split: splits)
    from a b
    show "snd (cmd_Run os (Split (fst (getEditor os repository)) (CHR '' '') @ [name])
                ([CHR 0x0A] @ [CHR 0x0A] @ template_Content template)) = None"
      by (auto simp: unfold split: splits)
  }
  {
    assume "err = Some (Errorf ''content of issue has not been changed'' None)"
    with a show "files w' name \<noteq> None"
      by (auto simp: unfold split: splits)
  }
  {
    assume "err = Some (Errorf (''empty issue title ('' @ name @ '')'') None)"
    with a show "files w' name \<noteq> None"
      by (auto simp: unfold split: splits)
  }
  {
    assume "err \<noteq> None \<and> api_calls w' \<noteq> api_calls w"
    with a show "files w' name \<noteq> None"
      by (auto simp: unfold split: splits)
  }
qed

theorem draft_lifecycle_witness:
  "TempFile (example_os ''Title'') []
     (''*_'' @ project_Name example_project @ ''_'' @ template_Name BLANK @ ''_pre-submit.md'')
     = Inr ''/tmp/7_pre-submit.md''
   \<and> snd (fst (createIssueFromTemplate create_fails_client (example_os ''Title'')
        (example_repo None) example_project BLANK example_world)) \<noteq> None
   \<and> api_calls (snd (createIssueFromTemplate create_fails_client (example_os ''Title'')
        (example_repo None) example_project BLANK example_world)) \<noteq> api_calls example_world
   \<and> files (snd (createIssueFromTemplate create_fails_client (example_os ''Title'')
        (example_repo None) example_project BLANK example_world))
        ''/tmp/7_pre-submit.md'' = Some ''Title''
   \<and> session_ok (example_os ''Title'') (example_repo None) example_project BLANK
        ''/tmp/7_pre-submit.md'' ''Title''
   \<and> fst (createIssueFromTemplate example_client (example_os ''Title'')
        (example_repo None) example_project BLANK example_world) = (Some example_issue, None)
   \<and> files (snd (createIssueFromTemplate example_client (example_os ''Title'')
        (example_repo None) example_project BLANK example_world))
        ''/tmp/7_pre-submit.md'' = None
   \<and> snd (fst (createIssueFromTemplate example_client editor_removes_os
        (example_repo None) example_project BLANK example_world)) \<noteq> None
   \<and> files (snd (createIssueFromTemplate example_client editor_removes_os
        (example_repo None) example_project BLANK example_world))
        ''/tmp/7_pre-submit.md'' = None
   \<and> snd (cmd_Run editor_removes_os
        (Split (fst (getEditor editor_removes_os (example_repo None))) (CHR '' '') @
         [''/tmp/7_pre-submit.md''])
        ([CHR 0x0A] @ [CHR 0x0A] @ template_Content BLANK)) = None
   \<and> TempFile (example_os ''Title'') [] ''*pre-submit.md'' = Inr ''/tmp/7_pre-submit.md''
   \<and> os_Remove (example_os ''Title'') ''/tmp/7_pre-submit.md'' = None
   \<and> files (snd (main_go_createIssueFromTemplate create_fails_client (example_os ''Title'')
        (example_repo None) example_project BLANK example_world))
        ''/tmp/7_pre-submit.md'' = None"
proof -
  let ?r = "createIssueFromTemplate create_fails_client (example_os ''Title'')
              (example_repo None) example_project BLANK example_world"
  let ?q = "createIssueFromTemplate example_client editor_removes_os
              (example_repo None) example_project BLANK example_world"
  note eval = createIssueFromTemplate_def getEditor_def HasSection_def HasOption_def
    Section_def ReadFile_def SplitN_2 first_line_def after_first_newline_def
    Errorf_w_def Let_def create_fails_client_def editor_removes_os_def example_defs
  have t: "TempFile (example_os ''Title'') []
     (''*_'' @ project_Name example_project @ ''_'' @ template_Name BLANK @ ''_pre-submit.md'')
     = Inr ''/tmp/7_pre-submit.md''"
    by (simp add: example_os_def)
  have r: "?r = ((fst (fst ?r), snd (fst ?r)), snd ?r)"
    by simp
  have e: "snd (fst ?r) \<noteq> None"
    by (simp add: eval)
  have a: "api_calls (snd ?r) \<noteq> api_calls example_world"
    by (simp add: eval)
  have tq: "TempFile editor_removes_os []
     (''*_'' @ project_Name example_project @ ''_'' @ template_Name BLANK @ ''_pre-submit.md'')
     = Inr ''/tmp/7_pre-submit.md''"
    by (simp add: editor_removes_os_def example_os_def)
  have q: "?q = ((fst (fst ?q), snd (fst ?q)), snd ?q)"
    by simp
  have eq: "snd (fst ?q) \<noteq> None"
    by (simp add: eval)
  have fq: "files (snd ?q) ''/tmp/7_pre-submit.md'' = None"
    by (simp add: eval)
  have f: "files (snd ?r) ''/tmp/7_pre-submit.md'' = Some ''Title''"
    by (simp add: eval)
  have t': "TempFile (example_os ''Title'') [] ''*pre-submit.md'' = Inr ''/tmp/7_pre-submit.md''"
    by (simp add: example_os_def)
  have rm: "os_Remove (example_os ''Title'') ''/tmp/7_pre-submit.md'' = None"
    by (simp add: example_os_def)
  have so: "session_ok (example_os ''Title'') (example_repo None) example_project BLANK
        ''/tmp/7_pre-submit.md'' ''Title''"
    by (rule example_session_ok')
  have ne: "''Title'' \<noteq> [CHR 0x0A] @ [CHR 0x0A] @ template_Content BLANK"
    by simp
  have fl: "first_line ''Title'' \<noteq> []"
    by (simp add: first_line_def)
  have cr: "Issues_CreateIssue example_client (project_ID example_project)
              (first_line ''Title'') (after_first_newline ''Title'') =
            (Some example_issue, None)"
    by (simp add: example_client_def)
  note L = draft_lifecycle [where os = "example_os ''Title''" and project = example_project
      and template = BLANK and name = "''/tmp/7_pre-submit.md''" and c = create_fails_client
      and repository = "example_repo None" and w = example_world
      and issue = "fst (fst ?r)" and err = "snd (fst ?r)" and w' = "snd ?r"
      and name' = "''/tmp/7_pre-submit.md''" and edited = "''Title''"
      and created = "Some example_issue"]
  note M = draft_lifecycle [where os = editor_removes_os and project = example_project
      and template = BLANK and name = "''/tmp/7_pre-submit.md''" and c = example_client
      and repository = "example_repo None" and w = example_world
      and issue = "fst (fst ?q)" and err = "snd (fst ?q)" and w' = "snd ?q"
      and name' = "''/tmp/7_pre-submit.md''" and edited = "''Title''"
      and created = "Some example_issue"]
  note S = draft_lifecycle [where os = "example_os ''Title''" and project = example_project
      and template = BLANK and name = "''/tmp/7_pre-submit.md''" and c = example_client
      and repository = "example_repo None" and w = example_world
      and issue = "fst (fst ?r)" and err = "snd (fst ?r)" and w' = "snd ?r"
      and name' = "''/tmp/7_pre-submit.md''" and edited = "''Title''"
      and created = "Some example_issue"]
  have g: "files (snd (main_go_createIssueFromTemplate create_fails_client
             (example_os ''Title'') (example_repo None) example_project BLANK example_world))
             ''/tmp/7_pre-submit.md'' = None"
    by (rule L [THEN conjunct2, THEN conjunct2, THEN mp, OF conjI [OF t' rm]])
  note L1 = L [THEN conjunct1, THEN mp, OF conjI [OF t r]]
  have k: "files (snd ?r) ''/tmp/7_pre-submit.md'' \<noteq> None"
    by (rule L1 [THEN conjunct2, THEN conjunct2, THEN conjunct2, THEN conjunct2, THEN mp,
          OF conjI [OF e a]])
  note M1 = M [THEN conjunct1, THEN mp, OF conjI [OF tq q]]
  note M2 = M1 [THEN conjunct2, THEN conjunct1, THEN mp, OF conjI [OF eq fq]]
  have m: "snd (cmd_Run editor_removes_os
        (Split (fst (getEditor editor_removes_os (example_repo None))) (CHR '' '') @
         [''/tmp/7_pre-submit.md''])
        ([CHR 0x0A] @ [CHR 0x0A] @ template_Content BLANK)) = None"
    by (rule M2 [THEN conjunct2, THEN conjunct2, THEN conjunct2])
  have ok: "fst (createIssueFromTemplate example_client (example_os ''Title'')
        (example_repo None) example_project BLANK example_world) = (Some example_issue, None)
     \<and> files (snd (createIssueFromTemplate example_client (example_os ''Title'')
        (example_repo None) example_project BLANK example_world))
        ''/tmp/7_pre-submit.md'' = None"
    by (rule S [THEN conjunct2, THEN conjunct1, THEN mp,
          OF conjI [OF so conjI [OF ne conjI [OF fl conjI [OF cr rm]]]]])
  show ?thesis
    by (intro conjI t e a f so ok [THEN conjunct1] ok [THEN conjunct2] eq fq m t' rm g)
qed

text \<open>
  C1 as stated fails on the program of the root main.go: the editor exits with an
  error after the draft was created, createIssueFromTemplate returns that error, and
  the draft is no longer on disk.
\<close>

theorem main_go_draft_removed_on_failure:
  "TempFile editor_fails_os [] ''*pre-submit.md'' = Inr ''/tmp/7_pre-submit.md''
   \<and> snd (fst (main_go_createIssueFromTemplate example_client editor_fails_os
        (example_repo None) example_project BLANK example_world)) =
      Some (Errorf ''error running editor: exit status 1''
              (Some (Errorf ''exit status 1'' None)))
   \<and> files (snd (main_go_createIssueFromTemplate example_client editor_fails_os
        (example_repo None) example_project BLANK example_world))
        ''/tmp/7_pre-submit.md'' = None"
  by (simp add: main_go_createIssueFromTemplate_def main_go_body_def getEditor_def
      HasSection_def HasOption_def Section_def Remove_def Errorf_w_def Let_def
      editor_fails_os_def example_defs)
text \<open>
  C10. When the run gets to the creation call, the call succeeds and the removal of the
  draft then fails, createIssueFromTemplate returns the created issue together with the
  error of the removal, the creation call having been made, and main ends with
  log.Fatalf.
\<close>

theorem remove_failure_after_creation:
  assumes "session_ok os repository project template name edited"
    and "edited \<noteq> [CHR 0x0A] @ [CHR 0x0A] @ template_Content template"
    and "first_line edited \<noteq> []"
    and "Issues_CreateIssue c (project_ID project) (first_line edited)
           (after_first_newline edited) = (Some created, None)"
    and "os_Remove os name = Some e"
  shows "fst (createIssueFromTemplate c os repository project template w) =
           (Some created, Some e)
       \<and> api_calls (snd (createIssueFromTemplate c os repository project template w)) =
           api_calls w @
           [CreateIssue (project_ID project) (first_line edited) (after_first_newline edited)]
       \<and> fst (main_from_create c os ui repository project template labels milestones w) =
           Fatal (''could not create issue: '' @ Error e)"
proof -
  have r: "createIssueFromTemplate c os repository project template w =
        ((Some created, Some e),
         w\<lparr>files := (files w)(name \<mapsto> edited),
           api_calls := api_calls w @
           [CreateIssue (project_ID project) (first_line edited) (after_first_newline edited)]\<rparr>)"
    using assms
    by (cases "getEditor os repository")
      (simp add: session_ok_def createIssueFromTemplate_def ReadFile_def Let_def Remove_def
        issueSplit_nonempty issueSplit_title issueSplit_padded)
  show ?thesis
    by (simp add: r main_from_create_def)
qed

theorem remove_failure_after_creation_witness:
  "session_ok remove_fails_os (example_repo None) example_project BLANK
     ''/tmp/7_pre-submit.md'' ''Title''
   \<and> fst (createIssueFromTemplate example_client remove_fails_os
         (example_repo None) example_project BLANK example_world) =
       (Some example_issue, Some (Errorf ''remove: operation not permitted'' None))
   \<and> api_calls (snd (createIssueFromTemplate example_client remove_fails_os
         (example_repo None) example_project BLANK example_world)) =
       [CreateIssue 42 ''Title'' []]
   \<and> fst (main_from_create example_client remove_fails_os cancelling_ui
         (example_repo None) example_project BLANK example_labels example_milestones
         example_world) =
       Fatal ''could not create issue: remove: operation not permitted''"
proof -
  have h: "session_ok remove_fails_os (example_repo None) example_project BLANK
             ''/tmp/7_pre-submit.md'' ''Title''"
    unfolding remove_fails_os_def by (rule example_session_ok)
  have n: "''Title'' \<noteq> [CHR 0x0A] @ [CHR 0x0A] @ template_Content BLANK"
    by simp
  have l: "first_line ''Title'' \<noteq> []"
    by (simp add: first_line_def)
  have cr: "Issues_CreateIssue example_client (project_ID example_project)
              (first_line ''Title'') (after_first_newline ''Title'') =
            (Some example_issue, None)"
    by (simp add: example_client_def)
  have rm: "os_Remove remove_fails_os ''/tmp/7_pre-submit.md'' =
            Some (Errorf ''remove: operation not permitted'' None)"
    by (simp add: remove_fails_os_def example_os_def)
  from remove_failure_after_creation [OF h n l cr rm,
      of example_world cancelling_ui example_labels example_milestones] h
  show ?thesis
    by (simp add: first_line_def after_first_newline_def example_world_def example_project_def)
qed

section \<open>Template aggregation\<close>

text \<open>
  Every failure but one aborts the aggregation: a run of getIssueTemplates that returns
  no error found the home directory, made the template directory, read every local
  template, listed the remote tree, and fetched and decoded every remote template.
\<close>

lemma local_loop_reads_ok:
  "local_loop os w dir acc entries = (ts, None) \<Longrightarrow>
     \<forall>entry \<in> set entries. HasSuffix entry ''.md'' \<longrightarrow>
        snd (ReadFile os w (filepath_Join [dir, entry])) = None"
  by (induction entries arbitrary: acc) (auto split: if_splits prod.splits option.splits)

lemma remote_loop_fetches_ok:
  "remote_loop c os project acc nodes = (ts, None) \<Longrightarrow>
     \<forall>node \<in> set nodes. HasSuffix (node_Path node) ''.md'' \<longrightarrow>
        snd (GetFile c (project_ID project) (node_Path node) (project_DefaultBranch project))
          = None \<and>
        snd (DecodeString os (file_Content (fst (GetFile c (project_ID project)
               (node_Path node) (project_DefaultBranch project))))) = None"
  by (induction nodes arbitrary: acc) (auto split: if_splits prod.splits option.splits)

lemma getIssueTemplates_fails_closed_elsewhere:
  assumes "getIssueTemplates c os project w = (ts, None)"
  shows "\<exists>home. homedir_Dir os = Inr home \<and>
     MkdirAll os (filepath_Join [home, ''.config'', ''gitlab'', ''issue_templates'']) = None \<and>
     (\<forall>entry \<in> set (fst (ReadDir os
          (filepath_Join [home, ''.config'', ''gitlab'', ''issue_templates'']))).
        HasSuffix entry ''.md'' \<longrightarrow>
        snd (ReadFile os w (filepath_Join
          [filepath_Join [home, ''.config'', ''gitlab'', ''issue_templates''], entry])) = None) \<and>
     snd (ListTree c (project_ID project) (project_DefaultBranch project)
            ''.gitlab/issue_templates'') = None \<and>
     (\<forall>node \<in> set (fst (ListTree c (project_ID project) (project_DefaultBranch project)
            ''.gitlab/issue_templates'')).
        HasSuffix (node_Path node) ''.md'' \<longrightarrow>
        snd (GetFile c (project_ID project) (node_Path node) (project_DefaultBranch project))
          = None \<and>
        snd (DecodeString os (file_Content (fst (GetFile c (project_ID project)
               (node_Path node) (project_DefaultBranch project))))) = None)"
proof -
  obtain ls le where l: "getLocalIssueTemplates os w = (ls, le)"
    by (cases "getLocalIssueTemplates os w")
  with assms have le: "le = None"
    by (cases le) (simp_all add: getIssueTemplates_def)
  from l le obtain home where h: "homedir_Dir os = Inr home"
    by (cases "homedir_Dir os") (simp_all add: getLocalIssueTemplates_def)
  let ?dir = "filepath_Join [home, ''.config'', ''gitlab'', ''issue_templates'']"
  from l le h have m: "MkdirAll os ?dir = None"
    by (cases "MkdirAll os ?dir") (simp_all add: getLocalIssueTemplates_def Let_def)
  from l le h m have "local_loop os w ?dir [] (fst (ReadDir os ?dir)) = (ls, None)"
    by (simp add: getLocalIssueTemplates_def Let_def split: prod.splits)
  note reads = local_loop_reads_ok [OF this]
  obtain nodes e' where lt: "ListTree c (project_ID project) (project_DefaultBranch project)
            ''.gitlab/issue_templates'' = (nodes, e')"
    by (cases "ListTree c (project_ID project) (project_DefaultBranch project)
            ''.gitlab/issue_templates''")
  with assms l le have e': "e' = None"
    by (cases e') (simp_all add: getIssueTemplates_def)
  with assms l le lt
  have "remote_loop c os project
          ([\<lparr>template_Name = ''BLANK'', template_Content = []\<rparr>] @ ls) nodes = (ts, None)"
    by (simp add: getIssueTemplates_def)
  note fetches = remote_loop_fetches_ok [OF this]
  from h m reads lt e' fetches show ?thesis by simp
qed

text \<open>
  C2 fails on the code for the listing of the local directory: ioutil.ReadDir returns
  an error (and no entry), and getIssueTemplates returns without error the blank
  template and the remote one.
\<close>

theorem getIssueTemplates_ReadDir_error_swallowed:
  "snd (ReadDir readdir_fails_os ''/home/u/.config/gitlab/issue_templates'') \<noteq> None
   \<and> getIssueTemplates example_client readdir_fails_os example_project example_world =
     ([BLANK, \<lparr>template_Name = ''c'', template_Content = ''c''\<rparr>], None)"
  by (simp add: getIssueTemplates_def getLocalIssueTemplates_def HasSuffix_def TrimSuffix_def
      example_paths Let_def readdir_fails_os_def example_defs)

text \<open>
  C6. Whenever the home directory is found, the template directory is made, every
  listed file whose name ends in ".md" can be read, the remote tree is listed and
  every node whose path ends in ".md" is fetched and decoded, getIssueTemplates
  returns without error the BLANK template (empty content), then one template for each
  directory entry whose name ends in ".md", named by that name without the suffix
  followed by " [local]" and holding the file's bytes, in the order of the directory
  listing, then one template for each remote tree node whose path ends in ".md", named
  by the fetched file's name without the suffix and holding its decoded content, in the
  order of the tree listing; every other entry is skipped. (The entries are those that
  ReadDir returned, whatever error came with them.)
\<close>

theorem getIssueTemplates_order:
  assumes "homedir_Dir os = Inr home"
    and "localTemplateDir = filepath_Join [home, ''.config'', ''gitlab'', ''issue_templates'']"
    and "MkdirAll os localTemplateDir = None"
    and "ReadDir os localTemplateDir = (entries, e)"
    and "\<forall>file \<in> set entries. HasSuffix file ''.md'' \<longrightarrow>
           snd (ReadFile os w (filepath_Join [localTemplateDir, file])) = None"
    and "ListTree c (project_ID project) (project_DefaultBranch project)
           ''.gitlab/issue_templates'' = (nodes, None)"
    and "\<forall>node \<in> set nodes. HasSuffix (node_Path node) ''.md'' \<longrightarrow>
           snd (GetFile c (project_ID project) (node_Path node)
                  (project_DefaultBranch project)) = None \<and>
           snd (DecodeString os (file_Content (fst (GetFile c (project_ID project)
                  (node_Path node) (project_DefaultBranch project))))) = None"
  shows "getIssueTemplates c os project w =
    ([\<lparr>template_Name = ''BLANK'', template_Content = []\<rparr>] @
     map (\<lambda>file. \<lparr>template_Name = TrimSuffix file ''.md'' @ '' [local]'',
                   template_Content =
                     fst (ReadFile os w (filepath_Join [localTemplateDir, file]))\<rparr>)
       (filter (\<lambda>file. HasSuffix file ''.md'') entries) @
     map (\<lambda>node.
            let file = fst (GetFile c (project_ID project) (node_Path node)
                              (project_DefaultBranch project))
            in \<lparr>template_Name = TrimSuffix (file_FileName file) ''.md'',
                template_Content = fst (DecodeString os (file_Content file))\<rparr>)
       (filter (\<lambda>node. HasSuffix (node_Path node) ''.md'') nodes),
     None)"
proof -
  have l: "getLocalIssueTemplates os w =
     (map (\<lambda>file. \<lparr>template_Name = TrimSuffix file ''.md'' @ '' [local]'',
                   template_Content =
                     fst (ReadFile os w (filepath_Join [localTemplateDir, file]))\<rparr>)
       (filter (\<lambda>file. HasSuffix file ''.md'') entries), None)"
    using assms(1-4) local_loop_total [OF assms(5), of "[]"]
    by (simp add: getLocalIssueTemplates_def Let_def)
  show ?thesis
    using assms(6) remote_loop_total [OF assms(7)]
    by (simp add: getIssueTemplates_def l)
qed

theorem getIssueTemplates_order_witness:
  "getIssueTemplates example_client (example_os []) example_project example_world =
     ([BLANK,
       \<lparr>template_Name = ''a [local]'', template_Content = ''A''\<rparr>,
       \<lparr>template_Name = ''b [local]'', template_Content = ''B''\<rparr>,
       \<lparr>template_Name = ''c'', template_Content = ''c''\<rparr>], None)"
proof -
  have h: "homedir_Dir (example_os []) = Inr ''/home/u''"
    by (simp add: example_os_def)
  have d: "''/home/u/.config/gitlab/issue_templates'' =
           filepath_Join [''/home/u'', ''.config'', ''gitlab'', ''issue_templates'']"
    by (simp add: example_paths)
  have m: "MkdirAll (example_os []) ''/home/u/.config/gitlab/issue_templates'' = None"
    by (simp add: example_os_def)
  have rd: "ReadDir (example_os []) ''/home/u/.config/gitlab/issue_templates'' =
            ([''a.md'', ''notes.txt'', ''b.md''], None)"
    by (simp add: example_os_def)
  have rf: "\<forall>file \<in> set [''a.md'', ''notes.txt'', ''b.md'']. HasSuffix file ''.md'' \<longrightarrow>
           snd (ReadFile (example_os []) example_world
                  (filepath_Join [''/home/u/.config/gitlab/issue_templates'', file])) = None"
    by (simp add: HasSuffix_def ReadFile_def example_paths example_os_def example_world_def)
  have lt: "ListTree example_client (project_ID example_project)
              (project_DefaultBranch example_project) ''.gitlab/issue_templates'' =
            ([\<lparr>node_Name = ''c.md'', node_Path = ''.gitlab/issue_templates/c.md''\<rparr>,
              \<lparr>node_Name = ''logo.png'', node_Path = ''.gitlab/issue_templates/logo.png''\<rparr>],
             None)"
    by (simp add: example_client_def)
  have gf: "\<forall>node \<in> set [\<lparr>node_Name = ''c.md'', node_Path = ''.gitlab/issue_templates/c.md''\<rparr>,
              \<lparr>node_Name = ''logo.png'', node_Path = ''.gitlab/issue_templates/logo.png''\<rparr>].
           HasSuffix (node_Path node) ''.md'' \<longrightarrow>
           snd (GetFile example_client (project_ID example_project) (node_Path node)
                  (project_DefaultBranch example_project)) = None \<and>
           snd (DecodeString (example_os []) (file_Content (fst (GetFile example_client
                  (project_ID example_project) (node_Path node)
                  (project_DefaultBranch example_project))))) = None"
    by (simp add: HasSuffix_def example_client_def example_os_def)
  show ?thesis
    using getIssueTemplates_order [OF h d m rd rf lt gf]
    by (simp add: HasSuffix_def TrimSuffix_def ReadFile_def example_paths Let_def
        example_defs)
qed

section \<open>The edited draft\<close>

text \<open>
  C5. When the run gets to the comparison with edited bytes that differ from what was
  written and whose first line is not empty, the creation call is made with the first
  line as title and with everything after the first newline as description (nothing,
  when there is no newline).
\<close>

theorem title_description_split:
  assumes "session_ok os repository project template name edited"
    and "edited \<noteq> [CHR 0x0A] @ [CHR 0x0A] @ template_Content template"
    and "first_line edited \<noteq> []"
  shows "api_calls (snd (createIssueFromTemplate c os repository project template w)) =
           api_calls w @
           [CreateIssue (project_ID project) (first_line edited) (after_first_newline edited)]
       \<and> (CHR 0x0A \<notin> set edited \<longrightarrow> after_first_newline edited = [])"
proof
  show "api_calls (snd (createIssueFromTemplate c os repository project template w)) =
           api_calls w @
           [CreateIssue (project_ID project) (first_line edited) (after_first_newline edited)]"
    using assms
    by (cases "getEditor os repository")
      (simp add: session_ok_def createIssueFromTemplate_def ReadFile_def Let_def Remove_def
        issueSplit_nonempty issueSplit_title issueSplit_padded
        split: prod.splits option.splits)
  show "CHR 0x0A \<notin> set edited \<longrightarrow> after_first_newline edited = []"
    by (simp add: after_first_newline_none)
qed

theorem title_description_split_witness:
  "session_ok (example_os ''Title\<newline>\<newline>Body text'') (example_repo None) example_project BLANK
     ''/tmp/7_pre-submit.md'' ''Title\<newline>\<newline>Body text''
   \<and> api_calls (snd (createIssueFromTemplate example_client
         (example_os ''Title\<newline>\<newline>Body text'') (example_repo None) example_project BLANK
         example_world)) = [CreateIssue 42 ''Title'' ''\<newline>Body text'']
   \<and> api_calls (snd (createIssueFromTemplate example_client
         (example_os ''Only a title'') (example_repo None) example_project BLANK
         example_world)) = [CreateIssue 42 ''Only a title'' []]"
proof -
  have h: "session_ok (example_os ''Title\<newline>\<newline>Body text'') (example_repo None)
     example_project BLANK ''/tmp/7_pre-submit.md'' ''Title\<newline>\<newline>Body text''"
    by (rule example_session_ok')
  have h': "session_ok (example_os ''Only a title'') (example_repo None)
     example_project BLANK ''/tmp/7_pre-submit.md'' ''Only a title''"
    by (rule example_session_ok')
  have n: "''Title\<newline>\<newline>Body text'' \<noteq> [CHR 0x0A] @ [CHR 0x0A] @ template_Content BLANK"
    and n': "''Only a title'' \<noteq> [CHR 0x0A] @ [CHR 0x0A] @ template_Content BLANK"
    by simp_all
  have l: "first_line ''Title\<newline>\<newline>Body text'' \<noteq> []"
    and l': "first_line ''Only a title'' \<noteq> []"
    by (simp_all add: first_line_def)
  from title_description_split [OF h n l, of example_client example_world]
    title_description_split [OF h' n' l', of example_client example_world] h
  show ?thesis
    by (simp add: first_line_def after_first_newline_def example_world_def example_project_def)
qed

text \<open>
  C7. When the bytes read back from the draft are the bytes written (two newlines, then
  the template's content, whatever it is), createIssueFromTemplate fails with the error
  "content of issue has not been changed" and makes no call to the hosting service.
\<close>

theorem unchanged_content_rejected:
  assumes "session_ok os repository project template name edited"
    and "edited = [CHR 0x0A] @ [CHR 0x0A] @ template_Content template"
  shows "snd (fst (createIssueFromTemplate c os repository project template w)) =
           Some (Errorf ''content of issue has not been changed'' None)
       \<and> api_calls (snd (createIssueFromTemplate c os repository project template w)) =
           api_calls w"
  using assms
  by (cases "getEditor os repository")
     (simp add: session_ok_def createIssueFromTemplate_def ReadFile_def)

theorem unchanged_content_rejected_witness:
  "session_ok (example_os ''\<newline>\<newline>## Steps'') (example_repo (Some ''nano -w''))
     example_project bug_template ''/tmp/7_pre-submit.md'' ''\<newline>\<newline>## Steps''
   \<and> snd (fst (createIssueFromTemplate example_client (example_os ''\<newline>\<newline>## Steps'')
        (example_repo (Some ''nano -w'')) example_project bug_template example_world)) =
        Some (Errorf ''content of issue has not been changed'' None)
   \<and> api_calls (snd (createIssueFromTemplate example_client
        (example_os ''\<newline>\<newline>## Steps'')
        (example_repo (Some ''nano -w'')) example_project bug_template example_world)) = []"
proof -
  have h: "session_ok (example_os ''\<newline>\<newline>## Steps'') (example_repo (Some ''nano -w''))
     example_project bug_template ''/tmp/7_pre-submit.md'' ''\<newline>\<newline>## Steps''"
    by (rule example_session_ok')
  have e: "''\<newline>\<newline>## Steps'' = [CHR 0x0A] @ [CHR 0x0A] @ template_Content bug_template"
    by (simp add: bug_template_def)
  from unchanged_content_rejected [OF h e, of example_client example_world] h
  show ?thesis by (simp add: example_world_def)
qed

text \<open>
  C8. When the edited bytes differ from what was written and their first line is empty,
  createIssueFromTemplate fails with the error "empty issue title (<draft name>)" and
  makes no call to the hosting service.
\<close>

theorem empty_title_rejected:
  assumes "session_ok os repository project template name edited"
    and "edited \<noteq> [CHR 0x0A] @ [CHR 0x0A] @ template_Content template"
    and "first_line edited = []"
  shows "snd (fst (createIssueFromTemplate c os repository project template w)) =
           Some (Errorf (''empty issue title ('' @ name @ '')'') None)
       \<and> api_calls (snd (createIssueFromTemplate c os repository project template w)) =
           api_calls w"
  using assms
  by (cases "getEditor os repository")
     (simp add: session_ok_def createIssueFromTemplate_def ReadFile_def Let_def
        issueSplit_nonempty issueSplit_title)

theorem empty_title_rejected_witness:
  "session_ok (example_os ''\<newline>only a body'') (example_repo None) example_project BLANK
     ''/tmp/7_pre-submit.md'' ''\<newline>only a body''
   \<and> snd (fst (createIssueFromTemplate example_client (example_os ''\<newline>only a body'')
         (example_repo None) example_project BLANK example_world)) =
       Some (Errorf ''empty issue title (/tmp/7_pre-submit.md)'' None)
   \<and> api_calls (snd (createIssueFromTemplate example_client (example_os ''\<newline>only a body'')
         (example_repo None) example_project BLANK example_world)) = []"
proof -
  have h: "session_ok (example_os ''\<newline>only a body'') (example_repo None) example_project
     BLANK ''/tmp/7_pre-submit.md'' ''\<newline>only a body''"
    by (rule example_session_ok')
  have n: "''\<newline>only a body'' \<noteq> [CHR 0x0A] @ [CHR 0x0A] @ template_Content BLANK"
    by simp
  have l: "first_line ''\<newline>only a body'' = []"
    by (simp add: first_line_def)
  from empty_title_rejected [OF h n l, of example_client example_world] h
  show ?thesis by (simp add: example_world_def)
qed

section \<open>Selection and update\<close>

text \<open>
  Whatever index comes back with the error of Find, the milestone used is one of the
  list, never the sentinel kept for an empty list; the label block does fall back to the
  sentinel when FindMulti returns its error and no index.
\<close>

lemma selectedMilestone_from_list:
  "milestones \<noteq> [] \<Longrightarrow> main_selectedMilestone ui milestones = Some m \<Longrightarrow> m \<in> set milestones"
  by (auto simp: main_selectedMilestone_def Let_def split: prod.splits if_splits)

lemma selectedLabels_cancelled:
  "labels \<noteq> [] \<Longrightarrow>
   FindMulti ui (map (\<lambda>l. label_Name l @ '': '' @ label_Description l) labels) = ([], Some e) \<Longrightarrow>
   main_selectedLabels ui labels = Some noLabels"
  by (simp add: main_selectedLabels_def)

text \<open>
  C3 fails on the code for the milestone: the user cancels both selections, the
  program does not abort, the labels fall back to the sentinel, but the milestone used
  is the first of the list and its id is sent in the update call.
\<close>

theorem milestone_cancel_selects_first:
  "main_selectedMilestone cancelling_ui example_milestones =
     Some \<lparr>milestone_ID = 7, milestone_Name = ''v1.0''\<rparr>
   \<and> main_selectedLabels cancelling_ui example_labels = Some noLabels
   \<and> main_from_create example_client (example_os ''Title'') cancelling_ui
       (example_repo None) example_project BLANK example_labels example_milestones
       \<lparr>files = Map.empty, api_calls = []\<rparr> =
     (Exit_ok,
      \<lparr>files = Map.empty,
        api_calls = [CreateIssue 42 ''Title'' [],
                     UpdateIssue 42 1 \<lparr>AddLabels = [], MilestoneID = Some 7\<rparr>]\<rparr>)"
  by (simp add: main_selectedMilestone_def main_selectedLabels_def main_from_create_def
      createIssueFromTemplate_def setIssueLabelsMilestones_def update_options_def
      getEditor_def HasSection_def HasOption_def Section_def Remove_def ReadFile_def
      SplitN_2 first_line_def after_first_newline_def
      noLabels_def noMilestone_def ErrAbort_def Let_def cancelling_ui_def
      example_milestones_def example_labels_def example_defs)

text \<open>
  C4. For every label list and milestone, the update call made by
  setIssueLabelsMilestones carries as labels to add exactly the names of the labels
  whose id is not 0, in order, and carries a milestone id exactly when the milestone's
  id is not 0 (then that id); called with the sentinel label list and the sentinel
  milestone it sends an empty list of labels to add and no milestone id.
\<close>

theorem setIssueLabelsMilestones_payload:
  "snd (setIssueLabelsMilestones c project issue labels milestone w) =
     w\<lparr>api_calls := api_calls w @
        [UpdateIssue (project_ID project) (issue_IID issue)
           \<lparr>AddLabels = map label_Name (filter (\<lambda>l. label_ID l \<noteq> 0) labels),
            MilestoneID = (if milestone_ID milestone = 0 then None
                           else Some (milestone_ID milestone))\<rparr>]\<rparr>
   \<and> snd (setIssueLabelsMilestones c project issue noLabels noMilestone w) =
     w\<lparr>api_calls := api_calls w @
        [UpdateIssue (project_ID project) (issue_IID issue)
           \<lparr>AddLabels = [], MilestoneID = None\<rparr>]\<rparr>"
  by (simp add: setIssueLabelsMilestones_def update_options_def labelNames_loop_filter
      noLabels_def noMilestone_def Let_def)

section \<open>Editor resolution\<close>

text \<open>
  C9. Whenever the git configuration loads, getEditor returns without error the first
  that is set of GIT_EDITOR, core.editor, VISUAL and EDITOR, in this order, and the
  literal "vi" when none is set.
\<close>

theorem getEditor_precedence:
  "ConfigScoped repository GlobalScope = Inr cfg \<Longrightarrow>
     getEditor os repository = (editor_precedence os cfg, None)"
  by (simp add: getEditor_def editor_precedence_def env_var_def core_editor_def
      HasSection_def HasOption_def Section_def Option_def Let_def split: option.splits)

theorem getEditor_precedence_witness:
  "ConfigScoped (example_repo (Some ''nano'')) GlobalScope =
     Inr [''core'' \<mapsto> (\<lambda>key. if key = ''editor'' then Some ''nano'' else None)]
   \<and> getEditor (env_os ''emacs'' ''code -w'' ''ed'') (example_repo (Some ''nano''))
       = (''emacs'', None)
   \<and> getEditor (env_os [] ''code -w'' ''ed'') (example_repo (Some ''nano''))
       = (''nano'', None)
   \<and> getEditor (env_os [] ''code -w'' ''ed'') (example_repo None) = (''code -w'', None)
   \<and> getEditor (env_os [] [] ''ed'') (example_repo None) = (''ed'', None)
   \<and> getEditor (env_os [] [] []) (example_repo None) = (''vi'', None)"
proof -
  have c: "ConfigScoped (example_repo ed) GlobalScope =
     Inr [''core'' \<mapsto> (\<lambda>key. if key = ''editor'' then ed else None)]" for ed
    by (simp add: example_repo_def)
  show ?thesis
    using c [of "Some ''nano''"]
      getEditor_precedence [where os = "env_os ''emacs'' ''code -w'' ''ed''",
        OF c [of "Some ''nano''"]]
      getEditor_precedence [where os = "env_os [] ''code -w'' ''ed''",
        OF c [of "Some ''nano''"]]
      getEditor_precedence [where os = "env_os [] ''code -w'' ''ed''", OF c [of None]]
      getEditor_precedence [where os = "env_os [] [] ''ed''", OF c [of None]]
      getEditor_precedence [where os = "env_os [] [] []", OF c [of None]]
    by (simp add: editor_precedence_def env_var_def core_editor_def example_env_def
        env_os_def)
qed

end
